theory Spec2Isabelle
  imports Complex_Main
begin

section \<open>Retry policy: \<^verbatim>\<open>src/lib/retry-config.js\<close>\<close>

text \<open>
  The class \<^verbatim>\<open>RetryConfig\<close> holds seven fields that its constructor fills from
  \<^verbatim>\<open>options\<close>, falling back to defaults. JavaScript numbers are modelled as follows:
  \<^verbatim>\<open>maxRetries\<close>, attempt numbers and HTTP status codes are integers; the four
  quantities of the delay arithmetic (\<^verbatim>\<open>initialDelayMs\<close>, \<^verbatim>\<open>maxDelayMs\<close>,
  \<^verbatim>\<open>backoffMultiplier\<close>, \<^verbatim>\<open>jitterFraction\<close>) are mathematical reals. Strings are lists of
  characters; the two arrays are lists.
\<close>

record retry_config =
  maxRetries :: int
  initialDelayMs :: real
  maxDelayMs :: real
  backoffMultiplier :: real
  jitterFraction :: real
  retryableStatusCodes :: "int list"
  retryableErrors :: "string list"

text \<open>\<^verbatim>\<open>new RetryConfig()\<close>: every option absent, every field its default.\<close>

definition default_config :: retry_config where
  "default_config =
     \<lparr> maxRetries = 3,
       initialDelayMs = 1000,
       maxDelayMs = 30000,
       backoffMultiplier = 2,
       jitterFraction = 1 / 10,
       retryableStatusCodes = [408, 429, 500, 502, 503, 504],
       retryableErrors = [''ECONNREFUSED'', ''ENOTFOUND'', ''ETIMEDOUT''] \<rparr>"

text \<open>
  A caught error: an object whose \<^verbatim>\<open>code\<close> and \<^verbatim>\<open>message\<close> properties are strings
  or absent (\<^verbatim>\<open>undefined\<close>).
\<close>

record failure =
  code :: "string option"
  message :: "string option"

text \<open>
  \<^verbatim>\<open>a || b\<close> on a string-or-undefined \<^verbatim>\<open>a\<close>: \<^verbatim>\<open>undefined\<close> and the empty string are
  falsy, every other string is truthy.
\<close>

definition js_or :: "string option \<Rightarrow> string \<Rightarrow> string" where
  "js_or a b = (case a of None \<Rightarrow> b | Some s \<Rightarrow> if s = [] then b else s)"

text \<open>
  \<^verbatim>\<open>String.prototype.includes\<close>: \<open>str_includes s t\<close> holds when \<open>t\<close> occurs in \<open>s\<close> as
  a contiguous run of characters, compared one by one.
\<close>

fun starts_with :: "string \<Rightarrow> string \<Rightarrow> bool" where
  "starts_with s [] = True"
| "starts_with [] (c # t) = False"
| "starts_with (d # s) (c # t) = (d = c \<and> starts_with s t)"

fun str_includes :: "string \<Rightarrow> string \<Rightarrow> bool" where
  "str_includes [] t = (t = [])"
| "str_includes (d # s) t = (starts_with (d # s) t \<or> str_includes s t)"

text \<open>The expression \<^verbatim>\<open>error.code || error.message || ''\<close> of \<^verbatim>\<open>shouldRetry\<close>.\<close>

definition errorCode :: "failure \<Rightarrow> string" where
  "errorCode error = js_or (code error) (js_or (message error) [])"

text \<open>
  \<^verbatim>\<open>shouldRetry(statusCode, error, attemptNumber)\<close>. An absent argument (\<^verbatim>\<open>null\<close>) is
  \<open>None\<close>. The test \<^verbatim>\<open>if (error)\<close> succeeds on every object; the test
  \<^verbatim>\<open>if (statusCode)\<close> fails on \<^verbatim>\<open>null\<close> and on the number \<open>0\<close>.
\<close>

definition shouldRetry :: "retry_config \<Rightarrow> int option \<Rightarrow> failure option \<Rightarrow> int \<Rightarrow> bool" where
  "shouldRetry config statusCode error attemptNumber =
     (if attemptNumber \<ge> maxRetries config then False
      else case error of
        Some err \<Rightarrow> list_ex (\<lambda>code. str_includes (errorCode err) code) (retryableErrors config)
      | None \<Rightarrow>
          (case statusCode of
             Some sc \<Rightarrow> if sc \<noteq> 0 then sc \<in> set (retryableStatusCodes config) else False
           | None \<Rightarrow> False))"

text \<open>
  \<^verbatim>\<open>calculateDelay(attemptNumber)\<close>. The value of \<^verbatim>\<open>Math.random()\<close> is the argument
  \<open>random\<close>; the attempt number is a natural number, the exponent of \<^verbatim>\<open>Math.pow\<close>.
  \<^verbatim>\<open>Math.floor\<close> yields an integer, which is the type of the result.

  The definition computes in the reals what the code computes in IEEE-754 doubles. The two
  agree where every intermediate result is a double and no operation rounds, as in
  Scenario 1 (integers below \<open>2\<^sup>5\<^sup>3\<close>, a jitter of \<open>0\<close>). They differ where a product or a
  sum rounds, and where \<^verbatim>\<open>Math.pow\<close> overflows: with \<^verbatim>\<open>initialDelayMs = 0\<close>,
  \<^verbatim>\<open>backoffMultiplier = 2\<close> and the attempt number 1024 the code computes
  \<^verbatim>\<open>0 * Infinity\<close> and returns \<^verbatim>\<open>NaN\<close>, while the definition yields \<open>0\<close>. For this reason no
  bound on the delays of the code is derived from this definition; the executor's
  properties below use the delay as an opaque value.
\<close>

definition calculateDelay :: "retry_config \<Rightarrow> real \<Rightarrow> nat \<Rightarrow> int" where
  "calculateDelay config random attemptNumber =
     (let exponentialDelay = initialDelayMs config * backoffMultiplier config ^ attemptNumber;
          cappedDelay = min exponentialDelay (maxDelayMs config);
          jitterAmount = cappedDelay * jitterFraction config;
          jitter = (random - 1 / 2) * 2 * jitterAmount
      in max 0 \<lfloor>cappedDelay + jitter\<rfloor>)"

text \<open>
  The classification of an error by the markers alone: the \<^verbatim>\<open>some(...)\<close> expression of
  \<^verbatim>\<open>shouldRetry\<close>, without the budget test.
\<close>

definition retryable_failure :: "retry_config \<Rightarrow> failure \<Rightarrow> bool" where
  "retryable_failure config error =
     list_ex (\<lambda>code. str_includes (errorCode error) code) (retryableErrors config)"

text \<open>
  The text that the specification says is searched for markers: the failure's code, or
  its message when the code is absent or empty (an absent message reads as the empty
  string). It is compared with \<open>errorCode\<close> below.
\<close>

definition failure_text :: "failure \<Rightarrow> string" where
  "failure_text error =
     (let msg = (case message error of Some m \<Rightarrow> m | None \<Rightarrow> [])
      in case code error of
           None \<Rightarrow> msg
         | Some c \<Rightarrow> if c = [] then msg else c)"

text \<open>The policy of Scenario 1, its two lists left open.\<close>

definition scenario1_config :: "int list \<Rightarrow> string list \<Rightarrow> retry_config" where
  "scenario1_config codes markers =
     \<lparr> maxRetries = 3, initialDelayMs = 1000, maxDelayMs = 30000, backoffMultiplier = 2,
       jitterFraction = 0, retryableStatusCodes = codes, retryableErrors = markers \<rparr>"

text \<open>A policy that lists the status \<open>0\<close> as retryable.\<close>

definition status0_config :: retry_config where
  "status0_config = default_config \<lparr> retryableStatusCodes := [0, 503] \<rparr>"

section \<open>Retrying executor: \<^verbatim>\<open>src/lib/fetch-retry.js\<close>\<close>

text \<open>
  The response of \<^verbatim>\<open>fetch\<close>. Its property \<^verbatim>\<open>ok\<close> is, by the Fetch standard, true exactly
  for a status from 200 to 299.
\<close>

record response =
  status :: int
  statusText :: string

definition ok :: "response \<Rightarrow> bool" where
  "ok response = (200 \<le> status response \<and> status response \<le> 299)"

text \<open>
  What a run does, in order: \<open>Sleep d\<close> is \<^verbatim>\<open>await sleep(d)\<close>, \<open>Fetch i\<close> is the call of
  \<^verbatim>\<open>fetch(url, options)\<close> made in iteration \<open>i\<close>. What a run throws: the error that
  \<^verbatim>\<open>fetch\<close> rejected with, or a fresh \<^verbatim>\<open>Error\<close> with a message. Where a run leaves
  \<^verbatim>\<open>fetchWithRetry\<close>: the three exits inside the loop and the three after it.
\<close>

datatype event = Sleep int | Fetch nat

datatype thrown = Rejected failure | Error string

datatype exit_point =
    Return_ok | Return_not_retried | Throw_not_retried
  | Return_lastResponse | Throw_lastError | Throw_generic

record run =
  outcome :: "thrown + response"
  exit_point :: exit_point
  exit_attempt :: nat
  trace :: "event list"

text \<open>
  The \<^verbatim>\<open>for\<close> loop of \<^verbatim>\<open>fetchWithRetry\<close> and the code after it. The environment is
  given by two sequences: \<open>fetch i\<close> is what the call of \<^verbatim>\<open>fetch\<close> in iteration \<open>i\<close>
  yields, a response (\<open>Inr\<close>) or a rejection (\<open>Inl\<close>, caught by the \<^verbatim>\<open>catch\<close> block);
  \<open>random i\<close> is what \<^verbatim>\<open>Math.random()\<close> yields in the \<open>i\<close>-th call of
  \<^verbatim>\<open>calculateDelay\<close>, the one made in iteration \<open>i + 1\<close>. The loop variables are
  \<open>attempt\<close>, \<open>lastError\<close> and \<open>lastResponse\<close>; \<open>tr\<close> collects the events.
\<close>

function attempt_loop ::
  "retry_config \<Rightarrow> (nat \<Rightarrow> failure + response) \<Rightarrow> (nat \<Rightarrow> real) \<Rightarrow>
   nat \<Rightarrow> failure option \<Rightarrow> response option \<Rightarrow> event list \<Rightarrow> run" where
  "attempt_loop config fetch random attempt lastError lastResponse tr =
     (if int attempt \<le> maxRetries config then
        let tr1 = (if attempt > 0
                   then tr @ [Sleep (calculateDelay config (random (attempt - 1)) (attempt - 1))]
                   else tr);
            tr2 = tr1 @ [Fetch attempt]
        in case fetch attempt of
             Inr response \<Rightarrow>
               if ok response then
                 \<lparr>outcome = Inr response, exit_point = Return_ok,
                  exit_attempt = attempt, trace = tr2\<rparr>
               else if \<not> shouldRetry config (Some (status response)) None (int attempt) then
                 \<lparr>outcome = Inr response, exit_point = Return_not_retried,
                  exit_attempt = attempt, trace = tr2\<rparr>
               else attempt_loop config fetch random (Suc attempt) lastError (Some response) tr2
           | Inl error \<Rightarrow>
               if \<not> shouldRetry config None (Some error) (int attempt) then
                 \<lparr>outcome = Inl (Rejected error), exit_point = Throw_not_retried,
                  exit_attempt = attempt, trace = tr2\<rparr>
               else attempt_loop config fetch random (Suc attempt) (Some error) lastResponse tr2
      else
        case lastResponse of
          Some response \<Rightarrow>
            \<lparr>outcome = Inr response, exit_point = Return_lastResponse,
             exit_attempt = attempt, trace = tr\<rparr>
        | None \<Rightarrow>
            (case lastError of
               Some error \<Rightarrow>
                 \<lparr>outcome = Inl (Rejected error), exit_point = Throw_lastError,
                  exit_attempt = attempt, trace = tr\<rparr>
             | None \<Rightarrow>
                 \<lparr>outcome = Inl (Error ''Fetch failed after all retries''),
                  exit_point = Throw_generic, exit_attempt = attempt, trace = tr\<rparr>))"
  by pat_completeness auto
termination
  by (relation "measure (\<lambda>(config, fetch, random, attempt, lastError, lastResponse, tr).
        nat (maxRetries config + 1 - int attempt))") auto

declare attempt_loop.simps [simp del]

text \<open>\<^verbatim>\<open>retryConfig || new RetryConfig()\<close>, with \<open>None\<close> for \<^verbatim>\<open>null\<close>.\<close>

definition effective_config :: "retry_config option \<Rightarrow> retry_config" where
  "effective_config retryConfig = (case retryConfig of Some c \<Rightarrow> c | None \<Rightarrow> default_config)"

definition fetchWithRetry ::
  "(nat \<Rightarrow> failure + response) \<Rightarrow> (nat \<Rightarrow> real) \<Rightarrow> retry_config option \<Rightarrow> run" where
  "fetchWithRetry fetch random retryConfig =
     attempt_loop (effective_config retryConfig) fetch random 0 None None []"

text \<open>The number of calls of \<^verbatim>\<open>fetch\<close> that a run made.\<close>

fun is_fetch :: "event \<Rightarrow> bool" where
  "is_fetch (Fetch i) = True"
| "is_fetch (Sleep d) = False"

definition attempts_made :: "run \<Rightarrow> nat" where
  "attempts_made r = length (filter is_fetch (trace r))"

text \<open>
  Iteration \<open>attempt\<close> goes on to the next one when neither \<^verbatim>\<open>return\<close> nor \<^verbatim>\<open>throw\<close> is
  reached in it: the response is not \<^verbatim>\<open>ok\<close> and \<^verbatim>\<open>shouldRetry\<close> holds for its status, or
  the call was rejected and \<^verbatim>\<open>shouldRetry\<close> holds for the error.
\<close>

definition retried :: "retry_config \<Rightarrow> (failure + response) \<Rightarrow> nat \<Rightarrow> bool" where
  "retried config result attempt =
     (case result of
        Inr response \<Rightarrow>
          \<not> ok response \<and> shouldRetry config (Some (status response)) None (int attempt)
      | Inl error \<Rightarrow> shouldRetry config None (Some error) (int attempt))"

text \<open>
  The events that the specification gives to attempt \<open>i\<close>: for \<open>i > 0\<close> a wait of
  \<^verbatim>\<open>calculateDelay(i - 1)\<close> milliseconds, then the request. \<open>schedule config random a n\<close>
  lists them for the attempts \<open>a, \<dots>, n - 1\<close>.
\<close>

definition attempt_events :: "retry_config \<Rightarrow> (nat \<Rightarrow> real) \<Rightarrow> nat \<Rightarrow> event list" where
  "attempt_events config random i =
     (if i > 0 then [Sleep (calculateDelay config (random (i - 1)) (i - 1))] else []) @ [Fetch i]"

definition schedule :: "retry_config \<Rightarrow> (nat \<Rightarrow> real) \<Rightarrow> nat \<Rightarrow> nat \<Rightarrow> event list" where
  "schedule config random a n = concat (map (attempt_events config random) [a..<n])"

text \<open>The run that leaves the loop in iteration \<open>attempt\<close> with the result of its request.\<close>

definition exit_of :: "(failure + response) \<Rightarrow> nat \<Rightarrow> event list \<Rightarrow> run" where
  "exit_of result attempt tr =
     (case result of
        Inr response \<Rightarrow>
          \<lparr>outcome = Inr response,
           exit_point = (if ok response then Return_ok else Return_not_retried),
           exit_attempt = attempt, trace = tr\<rparr>
      | Inl error \<Rightarrow>
          \<lparr>outcome = Inl (Rejected error), exit_point = Throw_not_retried,
           exit_attempt = attempt, trace = tr\<rparr>)"

text \<open>Environments of the scenarios: the same response, or the same rejection, every time.\<close>

definition always_status :: "int \<Rightarrow> nat \<Rightarrow> failure + response" where
  "always_status sc i = Inr \<lparr>status = sc, statusText = []\<rparr>"

definition always_code :: "string \<Rightarrow> nat \<Rightarrow> failure + response" where
  "always_code c i = Inl \<lparr>code = Some c, message = Some ''request failed''\<rparr>"

section \<open>Properties of the retry policy\<close>

lemma starts_with_iff: "starts_with s t \<longleftrightarrow> (\<exists>q. s = t @ q)"
  by (induction s t rule: starts_with.induct) auto

lemma str_includes_iff: "str_includes s t \<longleftrightarrow> (\<exists>p q. s = p @ t @ q)"
proof (induction s)
  case Nil
  then show ?case by simp
next
  case (Cons d s)
  show ?case
  proof
    assume "str_includes (d # s) t"
    then consider "starts_with (d # s) t" | "str_includes s t" by auto
    then show "\<exists>p q. d # s = p @ t @ q"
    proof cases
      case 1
      then obtain q where "d # s = t @ q" by (auto simp: starts_with_iff)
      then have "d # s = [] @ t @ q" by simp
      then show ?thesis by blast
    next
      case 2
      then obtain p q where "s = p @ t @ q" using Cons.IH by blast
      then have "d # s = (d # p) @ t @ q" by simp
      then show ?thesis by blast
    qed
  next
    assume "\<exists>p q. d # s = p @ t @ q"
    then obtain p q where pq: "d # s = p @ t @ q" by blast
    show "str_includes (d # s) t"
    proof (cases p)
      case Nil
      with pq have "starts_with (d # s) t" by (auto simp: starts_with_iff)
      then show ?thesis by simp
    next
      case (Cons a p')
      with pq have "s = p' @ t @ q" by simp
      then have "str_includes s t" using Cons.IH by blast
      then show ?thesis by simp
    qed
  qed
qed

lemma errorCode_failure_text: "errorCode error = failure_text error"
  by (simp add: errorCode_def failure_text_def js_or_def split: option.splits)

lemma shouldRetry_retryable_failure:
  "shouldRetry config statusCode (Some error) attemptNumber
   \<longleftrightarrow> attemptNumber < maxRetries config \<and> retryable_failure config error"
  by (auto simp: shouldRetry_def retryable_failure_def)

text \<open>
  C1. Once the attempt number has reached \<^verbatim>\<open>maxRetries\<close>, \<^verbatim>\<open>shouldRetry\<close> answers
  \<^verbatim>\<open>false\<close> whatever the status code and the error are (present or absent): the budget
  test comes first and nothing else is looked at.
\<close>

theorem shouldRetry_budget_exhausted:
  assumes "attemptNumber \<ge> maxRetries config"
  shows "shouldRetry config statusCode error attemptNumber = False"
  using assms by (simp add: shouldRetry_def)

theorem shouldRetry_budget_exhausted_witness:
  "(3::int) \<ge> maxRetries default_config
   \<and> shouldRetry default_config (Some 503) (Some \<lparr>code = Some ''ECONNREFUSED'', message = None\<rparr>) 3 = False"
  using shouldRetry_budget_exhausted [of default_config 3 "Some 503"
      "Some \<lparr>code = Some ''ECONNREFUSED'', message = None\<rparr>"]
  by (simp add: default_config_def)

text \<open>
  C4, as the claim has it, fails: below the budget and with no error, a present status code
  would be retryable exactly when it is listed. The status \<open>0\<close> (which \<^verbatim>\<open>fetch\<close> gives to
  an opaque or an error response) is listed by \<open>status0_config\<close>, and \<^verbatim>\<open>shouldRetry\<close>
  answers \<^verbatim>\<open>false\<close> for it, because \<^verbatim>\<open>if (statusCode)\<close> takes \<open>0\<close> for an absent status.
\<close>

theorem shouldRetry_status_zero_counterexample:
  "(0::int) < maxRetries status0_config
   \<and> (0::int) \<in> set (retryableStatusCodes status0_config)
   \<and> shouldRetry status0_config (Some 0) None 0 = False"
  by (simp add: shouldRetry_def status0_config_def default_config_def)

text \<open>
  C4, amended. Below the budget and with no error, \<^verbatim>\<open>shouldRetry\<close> answers \<^verbatim>\<open>true\<close> for a
  present status code exactly when the code is not \<open>0\<close> and is listed in
  \<^verbatim>\<open>retryableStatusCodes\<close>.
\<close>

theorem shouldRetry_status:
  assumes "attemptNumber < maxRetries config"
  shows "shouldRetry config (Some sc) None attemptNumber
         \<longleftrightarrow> sc \<noteq> 0 \<and> sc \<in> set (retryableStatusCodes config)"
  using assms by (simp add: shouldRetry_def)

theorem shouldRetry_status_witness:
  "(0::int) < maxRetries default_config
   \<and> shouldRetry default_config (Some 503) None 0
   \<and> \<not> shouldRetry default_config (Some 404) None 0"
  using shouldRetry_status [of 0 default_config 503] shouldRetry_status [of 0 default_config 404]
  by (simp add: default_config_def)

text \<open>
  C5. Below the budget and with an error present, \<^verbatim>\<open>shouldRetry\<close> answers \<^verbatim>\<open>true\<close>
  exactly when some configured marker occurs, character for character, as a contiguous part
  of the failure's code, or of its message when the code is absent or empty. The status
  argument plays no part.
\<close>

theorem shouldRetry_error:
  assumes "attemptNumber < maxRetries config"
  shows "shouldRetry config statusCode (Some error) attemptNumber
         \<longleftrightarrow> (\<exists>marker \<in> set (retryableErrors config).
                \<exists>p q. failure_text error = p @ marker @ q)"
  using assms
  by (simp add: shouldRetry_def list_ex_iff str_includes_iff errorCode_failure_text)

theorem shouldRetry_error_witness:
  "(0::int) < maxRetries default_config
   \<and> shouldRetry default_config None
       (Some \<lparr>code = None, message = Some ''connect ETIMEDOUT 10.0.0.1:443''\<rparr>) 0
   \<and> \<not> shouldRetry default_config None
       (Some \<lparr>code = Some ''EBADF'', message = Some ''connect ETIMEDOUT 10.0.0.1:443''\<rparr>) 0
   \<and> \<not> shouldRetry default_config None
       (Some \<lparr>code = Some [], message = Some ''etimedout''\<rparr>) 0"
proof -
  have b: "(0::int) < maxRetries default_config" by (simp add: default_config_def)
  have "failure_text \<lparr>code = None, message = Some ''connect ETIMEDOUT 10.0.0.1:443''\<rparr>
        = ''connect '' @ ''ETIMEDOUT'' @ '' 10.0.0.1:443''"
    by (simp add: failure_text_def)
  moreover have "''ETIMEDOUT'' \<in> set (retryableErrors default_config)"
    by (simp add: default_config_def)
  ultimately have 1: "shouldRetry default_config None
       (Some \<lparr>code = None, message = Some ''connect ETIMEDOUT 10.0.0.1:443''\<rparr>) 0"
    unfolding shouldRetry_error [OF b] by blast
  have 2: "\<not> shouldRetry default_config None
       (Some \<lparr>code = Some ''EBADF'', message = Some ''connect ETIMEDOUT 10.0.0.1:443''\<rparr>) 0"
    by (simp add: shouldRetry_def default_config_def errorCode_def js_or_def)
  have 3: "\<not> shouldRetry default_config None
       (Some \<lparr>code = Some [], message = Some ''etimedout''\<rparr>) 0"
    by (simp add: shouldRetry_def default_config_def errorCode_def js_or_def)
  from b 1 2 3 show ?thesis by blast
qed

text \<open>
  C9. Scenario 1: with \<^verbatim>\<open>maxRetries = 3\<close>, \<^verbatim>\<open>initialDelayMs = 1000\<close>,
  \<^verbatim>\<open>backoffMultiplier = 2\<close>, \<^verbatim>\<open>maxDelayMs = 30000\<close> and \<^verbatim>\<open>jitterFraction = 0\<close>, the delays
  for the attempt numbers 0, 1, 2 and 5 are 1000, 2000, 4000 and 30000, whatever the
  random draw.
\<close>

theorem calculateDelay_scenario1:
  "calculateDelay (scenario1_config codes markers) random 0 = 1000
   \<and> calculateDelay (scenario1_config codes markers) random 1 = 2000
   \<and> calculateDelay (scenario1_config codes markers) random 2 = 4000
   \<and> calculateDelay (scenario1_config codes markers) random 5 = 30000"
  by (simp add: calculateDelay_def scenario1_config_def)

theorem calculateDelay_scenario1_witness:
  "calculateDelay (scenario1_config [503] [''ETIMEDOUT'']) (7 / 10) 0 = 1000
   \<and> calculateDelay (scenario1_config [503] [''ETIMEDOUT'']) (7 / 10) 1 = 2000
   \<and> calculateDelay (scenario1_config [503] [''ETIMEDOUT'']) (7 / 10) 2 = 4000
   \<and> calculateDelay (scenario1_config [503] [''ETIMEDOUT'']) (7 / 10) 5 = 30000"
  by (rule calculateDelay_scenario1)

section \<open>Properties of the retrying executor\<close>

lemma schedule_step:
  "a < n \<Longrightarrow> schedule config random a n
     = attempt_events config random a @ schedule config random (Suc a) n"
  by (simp add: schedule_def upt_conv_Cons)

lemma schedule_single: "schedule config random a (Suc a) = attempt_events config random a"
  by (simp add: schedule_def)

lemma schedule_snoc:
  "schedule config random 0 (Suc n) = schedule config random 0 n @ attempt_events config random n"
  by (simp add: schedule_def)

lemma fetches_schedule: "length (filter is_fetch (schedule config random 0 n)) = n"
  by (induction n) (simp_all add: schedule_snoc attempt_events_def, simp add: schedule_def)

lemma loop_stop:
  assumes "int k \<le> maxRetries config" and "\<not> retried config (fetch k) k"
  shows "attempt_loop config fetch random k lastError lastResponse tr
         = exit_of (fetch k) k (tr @ attempt_events config random k)"
  using assms
  by (subst attempt_loop.simps)
     (auto simp: retried_def exit_of_def attempt_events_def Let_def split: sum.splits)

lemma loop_continue:
  assumes "int k \<le> maxRetries config" and "retried config (fetch k) k"
  shows "attempt_loop config fetch random k lastError lastResponse tr
         = attempt_loop config fetch random (Suc k)
             (case fetch k of Inl error \<Rightarrow> Some error | Inr _ \<Rightarrow> lastError)
             (case fetch k of Inr response \<Rightarrow> Some response | Inl _ \<Rightarrow> lastResponse)
             (tr @ attempt_events config random k)"
  using assms
  by (subst attempt_loop.simps)
     (auto simp: retried_def attempt_events_def Let_def split: sum.splits)

lemma loop_skipped:
  assumes "\<not> int k \<le> maxRetries config"
  shows "attempt_loop config fetch random k None None tr
         = \<lparr>outcome = Inl (Error ''Fetch failed after all retries''),
            exit_point = Throw_generic, exit_attempt = k, trace = tr\<rparr>"
  using assms by (subst attempt_loop.simps) simp

lemma loop_exits_at:
  assumes "int k \<le> maxRetries config" and "a \<le> k"
    and "\<forall>j. a \<le> j \<and> j < k \<longrightarrow> retried config (fetch j) j"
    and "\<not> retried config (fetch k) k"
  shows "attempt_loop config fetch random a lastError lastResponse tr
         = exit_of (fetch k) k (tr @ schedule config random a (Suc k))"
  using assms
proof (induction "k - a" arbitrary: a lastError lastResponse tr)
  case 0
  then have "a = k" by simp
  with 0 show ?case by (simp add: loop_stop schedule_single)
next
  case (Suc d)
  then have lt: "a < k" by simp
  with Suc have r: "retried config (fetch a) a" by simp
  from lt Suc.prems have le: "int a \<le> maxRetries config" by simp
  have IH: "\<And>le lr t. attempt_loop config fetch random (Suc a) le lr t
      = exit_of (fetch k) k (t @ schedule config random (Suc a) (Suc k))"
    using Suc.hyps(1) [of "Suc a"] Suc.hyps(2) Suc.prems lt by simp
  show ?case
    using lt
    by (simp add: loop_continue [where k = a and config = config and fetch = fetch, OF le r]
          IH schedule_step)
qed

lemma final_not_retried: "maxRetries config \<le> int k \<Longrightarrow> \<not> retried config result k"
  by (simp add: retried_def shouldRetry_def split: sum.splits)

lemma first_stop:
  assumes "0 \<le> maxRetries config"
  shows "\<exists>k. int k \<le> maxRetries config \<and> \<not> retried config (fetch k) k
             \<and> (\<forall>j<k. retried config (fetch j) j)"
proof -
  let ?P = "\<lambda>k. \<not> retried config (fetch k) k"
  have P: "?P (nat (maxRetries config))"
    using assms by (intro final_not_retried) simp
  define k where "k = (LEAST k. ?P k)"
  have "?P k" unfolding k_def using P by (rule LeastI)
  moreover have "k \<le> nat (maxRetries config)" unfolding k_def using P by (rule Least_le)
  moreover have "\<forall>j<k. retried config (fetch j) j"
    using not_less_Least [of _ ?P] unfolding k_def by blast
  ultimately show ?thesis using assms by (intro exI [of _ k]) auto
qed

text \<open>
  Every run: with a negative \<^verbatim>\<open>maxRetries\<close> the loop body never runs and the generic error
  is thrown; otherwise the run leaves the loop at the first iteration that is not retried,
  and there is one within the budget.
\<close>

lemma run_reaches:
  assumes "int k \<le> maxRetries (effective_config retryConfig)"
    and "\<forall>j<k. retried (effective_config retryConfig) (fetch j) j"
    and "\<not> retried (effective_config retryConfig) (fetch k) k"
  shows "fetchWithRetry fetch random retryConfig
         = exit_of (fetch k) k (schedule (effective_config retryConfig) random 0 (Suc k))"
  using loop_exits_at [where a = 0 and k = k and config = "effective_config retryConfig"
      and fetch = fetch and random = random and tr = "[]"] assms
  by (simp add: fetchWithRetry_def)

lemma run_cases:
  "(maxRetries (effective_config retryConfig) < 0
      \<and> fetchWithRetry fetch random retryConfig
          = \<lparr>outcome = Inl (Error ''Fetch failed after all retries''),
             exit_point = Throw_generic, exit_attempt = 0, trace = []\<rparr>)
   \<or> (\<exists>k. int k \<le> maxRetries (effective_config retryConfig)
          \<and> fetchWithRetry fetch random retryConfig
              = exit_of (fetch k) k (schedule (effective_config retryConfig) random 0 (Suc k)))"
proof (cases "maxRetries (effective_config retryConfig) < 0")
  case True
  then show ?thesis
    by (simp add: fetchWithRetry_def loop_skipped)
next
  case False
  then obtain k where "int k \<le> maxRetries (effective_config retryConfig)"
      "\<not> retried (effective_config retryConfig) (fetch k) k"
      "\<forall>j<k. retried (effective_config retryConfig) (fetch j) j"
    using first_stop [of "effective_config retryConfig" fetch] by auto
  then show ?thesis
    using run_reaches [of k retryConfig fetch random] by blast
qed

lemma fetchWithRetry_negative_budget:
  assumes "maxRetries (effective_config retryConfig) < 0"
  shows "fetchWithRetry fetch random retryConfig
         = \<lparr>outcome = Inl (Error ''Fetch failed after all retries''),
            exit_point = Throw_generic, exit_attempt = 0, trace = []\<rparr>"
  using assms by (simp add: fetchWithRetry_def loop_skipped)

lemma trace_exit_of [simp]: "trace (exit_of result k tr) = tr"
  by (simp add: exit_of_def split: sum.splits)

lemma exit_attempt_exit_of [simp]: "exit_attempt (exit_of result k tr) = k"
  by (simp add: exit_of_def split: sum.splits)

lemma exit_point_exit_of:
  "exit_point (exit_of result k tr) = Return_ok
   \<longleftrightarrow> (\<exists>response. outcome (exit_of result k tr) = Inr response \<and> ok response)"
  by (auto simp: exit_of_def split: sum.splits)

lemma exit_of_in_loop:
  "exit_point (exit_of result k tr) \<noteq> Return_lastResponse
   \<and> exit_point (exit_of result k tr) \<noteq> Throw_lastError
   \<and> exit_point (exit_of result k tr) \<noteq> Throw_generic"
  by (simp add: exit_of_def split: sum.splits)

text \<open>
  C2. Scenario 4: \<^verbatim>\<open>maxRetries = 2\<close>, 503 is listed as retryable, and every request comes
  back with status 503. The run makes three requests, waits \<^verbatim>\<open>calculateDelay(0)\<close> before
  the second and \<^verbatim>\<open>calculateDelay(1)\<close> before the third, and returns the third response as
  its value (through the \<^verbatim>\<open>return\<close> in the loop); nothing is thrown.
\<close>

theorem fetchWithRetry_all_503:
  assumes "maxRetries config = 2" and "503 \<in> set (retryableStatusCodes config)"
    and "\<forall>i. status (resp i) = 503"
  shows "fetchWithRetry (\<lambda>i. Inr (resp i)) random (Some config)
         = \<lparr>outcome = Inr (resp 2), exit_point = Return_not_retried, exit_attempt = 2,
            trace = [Fetch 0,
                     Sleep (calculateDelay config (random 0) 0), Fetch 1,
                     Sleep (calculateDelay config (random 1) 1), Fetch 2]\<rparr>
         \<and> attempts_made (fetchWithRetry (\<lambda>i. Inr (resp i)) random (Some config)) = 3"
proof -
  let ?fetch = "\<lambda>i. (Inr (resp i) :: failure + response)"
  have cfg: "effective_config (Some config) = config" by (simp add: effective_config_def)
  have nok: "\<And>i. \<not> ok (resp i)" using assms(3) by (simp add: ok_def)
  have r: "\<forall>j<2. retried config (?fetch j) j"
    using assms nok by (simp add: retried_def shouldRetry_def)
  have s: "\<not> retried config (?fetch 2) 2"
    using assms(1) by (intro final_not_retried) simp
  have "fetchWithRetry ?fetch random (Some config)
        = exit_of (?fetch 2) 2 (schedule config random 0 (Suc 2))"
    using run_reaches [of 2 "Some config" ?fetch random] assms(1) r s by (simp add: cfg)
  also have "\<dots> = \<lparr>outcome = Inr (resp 2), exit_point = Return_not_retried, exit_attempt = 2,
            trace = [Fetch 0,
                     Sleep (calculateDelay config (random 0) 0), Fetch 1,
                     Sleep (calculateDelay config (random 1) 1), Fetch 2]\<rparr>"
    using nok by (simp add: exit_of_def schedule_def attempt_events_def eval_nat_numeral)
  finally have run: "fetchWithRetry ?fetch random (Some config)
      = \<lparr>outcome = Inr (resp 2), exit_point = Return_not_retried, exit_attempt = 2,
            trace = [Fetch 0,
                     Sleep (calculateDelay config (random 0) 0), Fetch 1,
                     Sleep (calculateDelay config (random 1) 1), Fetch 2]\<rparr>" .
  then show ?thesis by (simp add: attempts_made_def)
qed

theorem fetchWithRetry_all_503_witness:
  "maxRetries (default_config \<lparr>maxRetries := 2\<rparr>) = 2
   \<and> 503 \<in> set (retryableStatusCodes (default_config \<lparr>maxRetries := 2\<rparr>))
   \<and> (\<forall>i. status (\<lparr>status = 503, statusText = ''Service Unavailable''\<rparr>) = 503)
   \<and> outcome (fetchWithRetry (\<lambda>i. Inr \<lparr>status = 503, statusText = ''Service Unavailable''\<rparr>)
        (\<lambda>i. 1 / 2) (Some (default_config \<lparr>maxRetries := 2\<rparr>)))
       = Inr \<lparr>status = 503, statusText = ''Service Unavailable''\<rparr>
   \<and> trace (fetchWithRetry (\<lambda>i. Inr \<lparr>status = 503, statusText = ''Service Unavailable''\<rparr>)
        (\<lambda>i. 1 / 2) (Some (default_config \<lparr>maxRetries := 2\<rparr>)))
       = [Fetch 0, Sleep 1000, Fetch 1, Sleep 2000, Fetch 2]"
proof -
  let ?c = "default_config \<lparr>maxRetries := 2\<rparr>"
  have d: "calculateDelay ?c (1 / 2) 0 = 1000" "calculateDelay ?c (1 / 2) 1 = 2000"
    by (simp_all add: calculateDelay_def default_config_def)
  show ?thesis
    using fetchWithRetry_all_503 [of ?c "\<lambda>i. \<lparr>status = 503, statusText = ''Service Unavailable''\<rparr>"
        "\<lambda>i. 1 / 2"] d
    by (simp add: default_config_def)
qed

text \<open>
  C3. First part: when the run reaches attempt \<open>k\<close> (every earlier attempt was retried),
  the request of attempt \<open>k\<close> is rejected and \<^verbatim>\<open>shouldRetry\<close> answers \<^verbatim>\<open>false\<close> for the error,
  that error is thrown from inside the loop; the request of attempt \<open>k\<close> is the last event
  of the run, so no wait and no request follows it. Second part: when every request is
  rejected with an error that matches a marker and \<^verbatim>\<open>maxRetries\<close> is not negative, the run
  makes \<^verbatim>\<open>maxRetries + 1\<close> requests and throws the error of the last one.
\<close>

theorem fetchWithRetry_failures:
  "(effective_config retryConfig = config
      \<and> int k \<le> maxRetries config
      \<and> (\<forall>j<k. retried config (fetch j) j)
      \<and> fetch k = Inl error
      \<and> \<not> shouldRetry config None (Some error) (int k)
    \<longrightarrow> fetchWithRetry fetch random retryConfig
          = \<lparr>outcome = Inl (Rejected error), exit_point = Throw_not_retried, exit_attempt = k,
             trace = schedule config random 0 k @ attempt_events config random k\<rparr>
        \<and> last (trace (fetchWithRetry fetch random retryConfig)) = Fetch k
        \<and> attempts_made (fetchWithRetry fetch random retryConfig) = k + 1)
   \<and> (effective_config retryConfig = config
      \<and> 0 \<le> maxRetries config
      \<and> (\<forall>i. retryable_failure config (errs i))
    \<longrightarrow> fetchWithRetry (\<lambda>i. Inl (errs i)) random retryConfig
          = \<lparr>outcome = Inl (Rejected (errs (nat (maxRetries config)))),
             exit_point = Throw_not_retried, exit_attempt = nat (maxRetries config),
             trace = schedule config random 0 (nat (maxRetries config) + 1)\<rparr>
        \<and> attempts_made (fetchWithRetry (\<lambda>i. Inl (errs i)) random retryConfig)
            = nat (maxRetries config) + 1)"
proof (intro conjI impI)
  assume a: "effective_config retryConfig = config
      \<and> int k \<le> maxRetries config
      \<and> (\<forall>j<k. retried config (fetch j) j)
      \<and> fetch k = Inl error
      \<and> \<not> shouldRetry config None (Some error) (int k)"
  then have "\<not> retried config (fetch k) k" by (simp add: retried_def)
  with a have "fetchWithRetry fetch random retryConfig
      = exit_of (fetch k) k (schedule config random 0 (Suc k))"
    using run_reaches [of k retryConfig fetch random] by auto
  with a show run: "fetchWithRetry fetch random retryConfig
          = \<lparr>outcome = Inl (Rejected error), exit_point = Throw_not_retried, exit_attempt = k,
             trace = schedule config random 0 k @ attempt_events config random k\<rparr>"
    by (simp add: exit_of_def schedule_snoc)
  show "last (trace (fetchWithRetry fetch random retryConfig)) = Fetch k"
    unfolding run by (simp add: attempt_events_def)
  show "attempts_made (fetchWithRetry fetch random retryConfig) = k + 1"
    unfolding run attempts_made_def
    using fetches_schedule [of config random "Suc k"] by (simp add: schedule_snoc)
next
  let ?fetch = "\<lambda>i. (Inl (errs i) :: failure + response)"
  let ?m = "nat (maxRetries config)"
  assume a: "effective_config retryConfig = config
      \<and> 0 \<le> maxRetries config
      \<and> (\<forall>i. retryable_failure config (errs i))"
  then have r: "\<forall>j<?m. retried config (?fetch j) j"
    by (auto simp: retried_def shouldRetry_retryable_failure)
  have s: "\<not> retried config (?fetch ?m) ?m"
    using a by (intro final_not_retried) simp
  have "fetchWithRetry ?fetch random retryConfig
      = exit_of (?fetch ?m) ?m (schedule config random 0 (Suc ?m))"
    using run_reaches [of ?m retryConfig ?fetch random] a r s by simp
  then show run: "fetchWithRetry ?fetch random retryConfig
          = \<lparr>outcome = Inl (Rejected (errs ?m)),
             exit_point = Throw_not_retried, exit_attempt = ?m,
             trace = schedule config random 0 (?m + 1)\<rparr>"
    by (simp add: exit_of_def)
  show "attempts_made (fetchWithRetry ?fetch random retryConfig) = ?m + 1"
    unfolding run attempts_made_def
    using fetches_schedule [of config random "?m + 1"] by simp
qed

theorem fetchWithRetry_failures_witness:
  "\<not> shouldRetry default_config None
        (Some \<lparr>code = Some ''EBADF'', message = Some ''request failed''\<rparr>) 0
   \<and> fetchWithRetry (always_code ''EBADF'') (\<lambda>i. 1 / 2) None
       = \<lparr>outcome = Inl (Rejected \<lparr>code = Some ''EBADF'', message = Some ''request failed''\<rparr>),
          exit_point = Throw_not_retried, exit_attempt = 0, trace = [Fetch 0]\<rparr>
   \<and> retryable_failure default_config
        \<lparr>code = Some ''ECONNREFUSED'', message = Some ''request failed''\<rparr>
   \<and> fetchWithRetry (always_code ''ECONNREFUSED'') (\<lambda>i. 1 / 2) None
       = \<lparr>outcome = Inl (Rejected \<lparr>code = Some ''ECONNREFUSED'', message = Some ''request failed''\<rparr>),
          exit_point = Throw_not_retried, exit_attempt = 3,
          trace = [Fetch 0, Sleep 1000, Fetch 1, Sleep 2000, Fetch 2, Sleep 4000, Fetch 3]\<rparr>
   \<and> attempts_made (fetchWithRetry (always_code ''ECONNREFUSED'') (\<lambda>i. 1 / 2) None) = 4"
proof -
  let ?bad = "\<lparr>code = Some ''EBADF'', message = Some ''request failed''\<rparr>"
  let ?refused = "\<lparr>code = Some ''ECONNREFUSED'', message = Some ''request failed''\<rparr>"
  note inst = fetchWithRetry_failures [where config = default_config and retryConfig = None
      and k = 0 and fetch = "always_code ''EBADF''" and error = ?bad
      and random = "\<lambda>i. 1 / 2" and errs = "\<lambda>i. ?refused"]
  have cfg: "effective_config None = default_config" by (simp add: effective_config_def)
  have m: "maxRetries default_config = 3" by (simp add: default_config_def)
  have n: "\<not> shouldRetry default_config None (Some ?bad) 0"
    by (simp add: shouldRetry_def default_config_def errorCode_def js_or_def)
  have y: "retryable_failure default_config ?refused"
    by (simp add: retryable_failure_def default_config_def errorCode_def js_or_def)
  have f: "always_code ''EBADF'' 0 = Inl ?bad" by (simp add: always_code_def)
  have g: "always_code ''ECONNREFUSED'' = (\<lambda>i. Inl ?refused)"
    by (rule ext) (simp add: always_code_def)
  have d: "calculateDelay default_config (1 / 2) 0 = 1000"
    "calculateDelay default_config (1 / 2) (Suc 0) = 2000"
    "calculateDelay default_config (1 / 2) (Suc (Suc 0)) = 4000"
    by (simp_all add: calculateDelay_def default_config_def)
  have s: "schedule default_config (\<lambda>i. 1 / 2) 0 (nat 3 + 1)
      = [Fetch 0, Sleep 1000, Fetch 1, Sleep 2000, Fetch 2, Sleep 4000, Fetch 3]"
    by (simp add: schedule_def attempt_events_def eval_nat_numeral d)
  have 1: "fetchWithRetry (always_code ''EBADF'') (\<lambda>i. 1 / 2) None
       = \<lparr>outcome = Inl (Rejected ?bad),
          exit_point = Throw_not_retried, exit_attempt = 0, trace = [Fetch 0]\<rparr>"
    using inst cfg m n f by (simp add: schedule_def attempt_events_def)
  have 2: "fetchWithRetry (always_code ''ECONNREFUSED'') (\<lambda>i. 1 / 2) None
       = \<lparr>outcome = Inl (Rejected ?refused),
          exit_point = Throw_not_retried, exit_attempt = 3,
          trace = [Fetch 0, Sleep 1000, Fetch 1, Sleep 2000, Fetch 2, Sleep 4000, Fetch 3]\<rparr>
     \<and> attempts_made (fetchWithRetry (always_code ''ECONNREFUSED'') (\<lambda>i. 1 / 2) None) = 4"
    using inst cfg m y s unfolding g by (simp add: attempts_made_def)
  from n 1 y 2 show ?thesis by blast
qed

text \<open>
  C7. In every run the events are, attempt by attempt from attempt 0: for an attempt
  \<open>i > 0\<close> a wait of \<^verbatim>\<open>calculateDelay(i - 1)\<close> milliseconds, the argument being the index
  of the attempt before, and then the request of attempt \<open>i\<close>; attempt 0 has its request
  only, with no wait before it.
\<close>

theorem fetchWithRetry_delays:
  "trace (fetchWithRetry fetch random retryConfig)
   = concat (map
       (\<lambda>i. (if i > 0
             then [Sleep (calculateDelay (effective_config retryConfig) (random (i - 1)) (i - 1))]
             else [])
            @ [Fetch i])
       [0..<attempts_made (fetchWithRetry fetch random retryConfig)])"
proof -
  let ?c = "effective_config retryConfig"
  let ?run = "fetchWithRetry fetch random retryConfig"
  have "trace ?run = schedule ?c random 0 (attempts_made ?run)"
    using run_cases [of retryConfig fetch random]
  proof (elim disjE conjE exE)
    assume "?run = \<lparr>outcome = Inl (Error ''Fetch failed after all retries''),
             exit_point = Throw_generic, exit_attempt = 0, trace = []\<rparr>"
    then show ?thesis by (simp add: attempts_made_def schedule_def)
  next
    fix k
    assume "?run = exit_of (fetch k) k (schedule ?c random 0 (Suc k))"
    then show ?thesis
      using fetches_schedule [of ?c random "Suc k"] by (simp add: attempts_made_def)
  qed
  then show ?thesis
    by (simp add: schedule_def attempt_events_def [abs_def])
qed

theorem fetchWithRetry_delays_witness:
  "trace (fetchWithRetry (always_status 503) (\<lambda>i. 1 / 2) None)
   = concat (map
       (\<lambda>i. (if i > 0
             then [Sleep (calculateDelay (effective_config None) (1 / 2) (i - 1))]
             else [])
            @ [Fetch i])
       [0..<attempts_made (fetchWithRetry (always_status 503) (\<lambda>i. 1 / 2) None)])"
  using fetchWithRetry_delays [of "always_status 503" "\<lambda>i. 1 / 2" None] by simp

text \<open>
  C8. When \<^verbatim>\<open>maxRetries\<close> is not negative (so that a first attempt is made) and the first
  request yields a response with a status from 200 to 299, the run returns that response
  through the \<^verbatim>\<open>return\<close> under \<^verbatim>\<open>if (response.ok)\<close>, after one request and no wait. And in
  every run, that \<^verbatim>\<open>return\<close> is the exit taken exactly when the run returns a response with
  such a status.
\<close>

theorem fetchWithRetry_first_ok:
  "(0 \<le> maxRetries (effective_config retryConfig)
      \<and> fetch 0 = Inr response \<and> 200 \<le> status response \<and> status response \<le> 299
    \<longrightarrow> fetchWithRetry fetch random retryConfig
          = \<lparr>outcome = Inr response, exit_point = Return_ok, exit_attempt = 0,
             trace = [Fetch 0]\<rparr>
        \<and> attempts_made (fetchWithRetry fetch random retryConfig) = 1)
   \<and> (exit_point (fetchWithRetry fetch random retryConfig) = Return_ok
      \<longleftrightarrow> (\<exists>r. outcome (fetchWithRetry fetch random retryConfig) = Inr r
               \<and> 200 \<le> status r \<and> status r \<le> 299))"
proof (intro conjI impI)
  assume a: "0 \<le> maxRetries (effective_config retryConfig)
      \<and> fetch 0 = Inr response \<and> 200 \<le> status response \<and> status response \<le> 299"
  then have "\<not> retried (effective_config retryConfig) (fetch 0) 0"
    by (simp add: retried_def ok_def)
  with a have "fetchWithRetry fetch random retryConfig
      = exit_of (fetch 0) 0 (schedule (effective_config retryConfig) random 0 (Suc 0))"
    using run_reaches [of 0 retryConfig fetch random] by simp
  with a show run: "fetchWithRetry fetch random retryConfig
          = \<lparr>outcome = Inr response, exit_point = Return_ok, exit_attempt = 0,
             trace = [Fetch 0]\<rparr>"
    by (simp add: exit_of_def ok_def schedule_def attempt_events_def)
  show "attempts_made (fetchWithRetry fetch random retryConfig) = 1"
    unfolding run by (simp add: attempts_made_def)
next
  show "exit_point (fetchWithRetry fetch random retryConfig) = Return_ok
      \<longleftrightarrow> (\<exists>r. outcome (fetchWithRetry fetch random retryConfig) = Inr r
               \<and> 200 \<le> status r \<and> status r \<le> 299)"
    using run_cases [of retryConfig fetch random]
    by (auto simp: exit_point_exit_of [unfolded ok_def])
qed

theorem fetchWithRetry_first_ok_witness:
  "0 \<le> maxRetries (effective_config None)
   \<and> always_status 200 0 = Inr \<lparr>status = 200, statusText = []\<rparr>
   \<and> fetchWithRetry (always_status 200) (\<lambda>i. 1 / 2) None
       = \<lparr>outcome = Inr \<lparr>status = 200, statusText = []\<rparr>, exit_point = Return_ok,
          exit_attempt = 0, trace = [Fetch 0]\<rparr>"
  using fetchWithRetry_first_ok [of None "always_status 200" "\<lparr>status = 200, statusText = []\<rparr>"
      "\<lambda>i. 1 / 2"]
  by (simp add: effective_config_def default_config_def always_status_def)

text \<open>
  C10. When \<^verbatim>\<open>maxRetries\<close> is not negative, every run (the loop is a total function, so
  there is always one) leaves \<^verbatim>\<open>fetchWithRetry\<close> from inside the loop, in an iteration whose
  index is at most \<^verbatim>\<open>maxRetries\<close>: it returns the response of that iteration or throws the
  error of that iteration, and none of the three exits after the loop is taken. The reason
  is the last conjunct: at the index \<^verbatim>\<open>maxRetries\<close>, \<^verbatim>\<open>shouldRetry\<close> answers \<^verbatim>\<open>false\<close>. (With
  a negative \<^verbatim>\<open>maxRetries\<close> the loop body never runs, see \<open>fetchWithRetry_negative_budget\<close>.)
\<close>

theorem fetchWithRetry_exits_in_loop:
  assumes "0 \<le> maxRetries (effective_config retryConfig)"
  shows "int (exit_attempt (fetchWithRetry fetch random retryConfig))
           \<le> maxRetries (effective_config retryConfig)
         \<and> outcome (fetchWithRetry fetch random retryConfig)
             = (case fetch (exit_attempt (fetchWithRetry fetch random retryConfig)) of
                  Inr response \<Rightarrow> Inr response
                | Inl error \<Rightarrow> Inl (Rejected error))
         \<and> exit_point (fetchWithRetry fetch random retryConfig) \<noteq> Return_lastResponse
         \<and> exit_point (fetchWithRetry fetch random retryConfig) \<noteq> Throw_lastError
         \<and> exit_point (fetchWithRetry fetch random retryConfig) \<noteq> Throw_generic
         \<and> attempts_made (fetchWithRetry fetch random retryConfig)
             = exit_attempt (fetchWithRetry fetch random retryConfig) + 1
         \<and> shouldRetry (effective_config retryConfig) statusCode error
               (maxRetries (effective_config retryConfig)) = False"
proof -
  let ?c = "effective_config retryConfig"
  from assms obtain k where k: "int k \<le> maxRetries ?c"
    and run: "fetchWithRetry fetch random retryConfig
        = exit_of (fetch k) k (schedule ?c random 0 (Suc k))"
    using run_cases [of retryConfig fetch random] by auto
  have "outcome (exit_of (fetch k) k (schedule ?c random 0 (Suc k)))
      = (case fetch k of Inr response \<Rightarrow> Inr response | Inl error \<Rightarrow> Inl (Rejected error))"
    by (simp add: exit_of_def split: sum.splits)
  moreover have "length (filter is_fetch (schedule ?c random 0 (Suc k))) = k + 1"
    using fetches_schedule [of ?c random "Suc k"] by simp
  ultimately show ?thesis
    unfolding run using k exit_of_in_loop [of "fetch k" k "schedule ?c random 0 (Suc k)"]
    by (simp add: attempts_made_def shouldRetry_def)
qed

theorem fetchWithRetry_exits_in_loop_witness:
  "0 \<le> maxRetries (effective_config None)
   \<and> int (exit_attempt (fetchWithRetry (always_status 503) (\<lambda>i. 1 / 2) None))
       \<le> maxRetries (effective_config None)
   \<and> exit_point (fetchWithRetry (always_status 503) (\<lambda>i. 1 / 2) None) \<noteq> Return_lastResponse
   \<and> exit_point (fetchWithRetry (always_status 503) (\<lambda>i. 1 / 2) None) \<noteq> Throw_lastError
   \<and> exit_point (fetchWithRetry (always_status 503) (\<lambda>i. 1 / 2) None) \<noteq> Throw_generic"
proof -
  have "0 \<le> maxRetries (effective_config None)"
    by (simp add: effective_config_def default_config_def)
  then show ?thesis
    using fetchWithRetry_exits_in_loop [of None "always_status 503" "\<lambda>i. 1 / 2"] by simp
qed

end
